theory Spec2Isabelle
  imports Complex_Main "HOL-Library.AList"
begin

section \<open>The paginator of \<open>option_bot/polygon.py\<close>\<close>

text \<open>
  \<open>PolygonPaginator\<close> keeps a request counter, a log of the requests it made and the
  decoded pages it received. A log entry is the dict
  \<open>{"request_id": ..., "query_timestamp": time.time()}\<close>; a timestamp is a number of
  seconds (a float in the source, a rational here).
\<close>

record log_entry =
  request_id :: "string option"
  query_timestamp :: rat

record 'j paginator =
  query_count :: int
  query_time_log :: "log_entry list"
  results :: "'j list"

text \<open>
  The object that \<open>requests.get\<close> returns is a \<open>Response\<close> of the requests library. The
  code reads its \<open>status_code\<close> and its \<open>json()\<close> (taken to decode), and it reads
  \<open>response.get\<close>, an attribute that the class does not have.
\<close>

record 'j response =
  status_code :: int
  json :: 'j

type_synonym payload = "string \<rightharpoonup> string"

datatype exn = HTTPError int | ConnectionError | TypeError | DatabaseError | AttributeError

datatype outcome = Returned | Raised exn | Unscripted

datatype event = Sleep int | Get string payload

datatype 'j reply = Fails | Responds "'j response" rat

definition MAX_QUERY_PER_MINUTE :: int where
  "MAX_QUERY_PER_MINUTE = 4"

definition init :: "'j paginator" where
  "init = \<lparr>query_count = 0, query_time_log = [], results = []\<rparr>"

text \<open>
  A \<open>datetime\<close> is a number of microseconds, and \<open>(b - a).total_seconds()\<close> the
  difference in seconds. \<open>timestamp_to_datetime\<close> comes from a module outside the
  sources at hand: it is the parameter \<open>T\<close>.
\<close>

type_synonym datetime = int

definition total_seconds :: "int \<Rightarrow> rat" where
  "total_seconds d = of_int d / 1000000"

definition api_sleep_time :: "(rat \<Rightarrow> datetime) \<Rightarrow> 'j paginator \<Rightarrow> int" where
  "api_sleep_time T self =
     (let sleep_time = 60 in
      if length (query_time_log self) > 2 then
        (let a = T (query_timestamp (hd (query_time_log self)));
             b = T (query_timestamp (last (query_time_log self)));
             diff = \<lceil>total_seconds (b - a)\<rceil>
         in if diff < sleep_time then diff else sleep_time)
      else sleep_time)"

text \<open>Python's truth value of \<open>response.get("next_url")\<close>: \<open>None\<close> and the empty string are false.\<close>

fun truthy :: "string option \<Rightarrow> bool" where
  "truthy None = False"
| "truthy (Some s) = (s \<noteq> [])"

text \<open>
  Lines 40 to 43 of \<open>query_all\<close>: the sleep and the reset. Every effect is traced together
  with the paginator as it is when the effect happens.
\<close>

definition throttle :: "(rat \<Rightarrow> datetime) \<Rightarrow> 'j paginator \<Rightarrow> bool
    \<Rightarrow> (event \<times> 'j paginator) list \<times> 'j paginator" where
  "throttle T self overload =
     (if query_count self \<ge> MAX_QUERY_PER_MINUTE \<or> overload
      then ([(Sleep (api_sleep_time T self), self)],
            self\<lparr>query_count := 0, query_time_log := []\<rparr>)
      else ([], self))"

text \<open>
  \<open>response.get(key)\<close>: the class \<open>Response\<close> defines no attribute \<open>get\<close>, so the
  expression raises \<open>AttributeError\<close> for every response and every key.
\<close>

definition response_get :: "'j response \<Rightarrow> string \<Rightarrow> exn + string option" where
  "response_get response key = Inl AttributeError"

text \<open>\<open>raise_for_status\<close> of the requests library raises for the codes 400 to 599.\<close>

definition raise_for_status :: "'j response \<Rightarrow> outcome" where
  "raise_for_status response =
     (if 400 \<le> status_code response \<and> status_code response < 600
      then Raised (HTTPError (status_code response)) else Returned)"

text \<open>
  \<open>query_all\<close>. The world is the script of what \<open>requests.get\<close> does at each call, in
  order: it raises an exception of its own, a failed connection (\<open>Fails\<close>), or it
  returns a response, after which \<open>time.time()\<close> would return the given timestamp
  (\<open>Responds\<close>). A call of \<open>requests.get\<close> that the script does not cover ends the run
  with \<open>Unscripted\<close>. \<open>K\<close> is the constant \<open>POLYGON_API_KEY\<close>. In line 47 the dict of the
  log entry is built from left to right: \<open>response.get("request_id")\<close> is evaluated
  first, and when it raises, nothing is appended to the log and line 48 is not reached.
  The branches after it follow the source; an awaited call runs to its end before the
  caller goes on. As \<open>response.get\<close> raises for every response, no call gets as far as
  the awaits of the lines 54 and 56: the calls never nest (\<open>query_all_one_request\<close>
  below), and the interpreter's bound on the depth of recursion is never met. The default
  argument \<open>payload = {}\<close> is one shared dict, which holds
  nothing but the key \<open>apiKey\<close> once a call has used it.
\<close>

fun query_all :: "string \<Rightarrow> (rat \<Rightarrow> datetime) \<Rightarrow> 'j reply list
    \<Rightarrow> 'j paginator \<Rightarrow> string \<Rightarrow> payload \<Rightarrow> bool
    \<Rightarrow> outcome \<times> 'j paginator \<times> (event \<times> 'j paginator) list" where
  "query_all K T [] self url payload overload =
     (let payload = payload(''apiKey'' \<mapsto> K);
          (slept, self) = throttle T self overload
      in (Unscripted, self, slept @ [(Get url payload, self)]))"
| "query_all K T (Fails # world) self url payload overload =
     (let payload = payload(''apiKey'' \<mapsto> K);
          (slept, self) = throttle T self overload
      in (Raised ConnectionError, self, slept @ [(Get url payload, self)]))"
| "query_all K T (Responds response now # world) self url payload overload =
     (let payload = payload(''apiKey'' \<mapsto> K);
          (slept, self) = throttle T self overload;
          sent = slept @ [(Get url payload, self)]
      in case response_get response ''request_id'' of
           Inl e \<Rightarrow> (Raised e, self, sent)
         | Inr rid \<Rightarrow>
             (let self = self\<lparr>query_time_log := query_time_log self @
                                [\<lparr>request_id = rid, query_timestamp = now\<rparr>]\<rparr>;
                  self = self\<lparr>query_count := query_count self + 1\<rparr>
              in if status_code response = 200 then
                   (let self = self\<lparr>results := results self @ [json response]\<rparr>
                    in case response_get response ''next_url'' of
                         Inl e \<Rightarrow> (Raised e, self, sent)
                       | Inr next_url \<Rightarrow>
                           if truthy next_url then
                             (let (out, self, evs) =
                                    query_all K T world self (the next_url) Map.empty False
                              in (out, self, sent @ evs))
                           else (Returned, self, sent))
                 else if status_code response = 429 then
                   (let (out, self, evs) = query_all K T world self url payload True
                    in (out, self, sent @ evs))
                 else (raise_for_status response, self, sent)))"

declare query_all.simps [simp del]

text \<open>The requests of a trace.\<close>

fun is_Get :: "event \<Rightarrow> bool" where
  "is_Get (Get url payload) = True"
| "is_Get (Sleep n) = False"

definition fetches :: "(event \<times> 'j paginator) list \<Rightarrow> (event \<times> 'j paginator) list" where
  "fetches tr = filter (\<lambda>e. is_Get (fst e)) tr"

section \<open>The downloads of \<open>curator/data_pipeline/download.py\<close>\<close>

text \<open>
  The namedtuple \<open>OptionTicker\<close> of \<open>db_tools/utils.py\<close>; its field \<open>id\<close> is \<open>id_num\<close>
  here, and a date is a day number.
\<close>

record OptionTicker =
  o_ticker :: string
  id_num :: int
  expiration_date :: int
  underlying_ticker :: string

datatype kwarg = KInt int | KBool bool | KStr string

type_synonym kwargs = "string \<rightharpoonup> kwarg"

text \<open>
  The effects of a downloader: its log lines, the call of the paginator's
  \<open>generate_request_args\<close>, and the run of a pool (\<open>Pool\<close> or \<open>QuotePool\<close>) over the
  request arguments, with the keyword arguments the pool is built from.
\<close>

datatype ('a, 'u, 'm) pool_event =
    LogGenerating
  | GenerateRequestArgs "'a list option"
  | LogFetching
  | LogTasks nat
  | LogCreatingQuotePool
  | PoolStarmap kwargs "'u list"
  | QuotePoolStarmap kwargs 'm "'u list"
  | LogFinished
  | LogNoData int

text \<open>
  \<open>dict(**pool_kwargs, **{"init_client_session": True, "session_base_url": POLYGON_BASE_URL})\<close>
  raises \<open>TypeError\<close> when \<open>pool_kwargs\<close> holds one of the two keys already.
\<close>

definition session_kwargs :: "string \<Rightarrow> kwargs \<Rightarrow> exn + kwargs" where
  "session_kwargs base_url pool_kwargs =
     (if pool_kwargs ''init_client_session'' \<noteq> None \<or> pool_kwargs ''session_base_url'' \<noteq> None
      then Inl TypeError
      else Inr (pool_kwargs(''init_client_session'' \<mapsto> KBool True,
                            ''session_base_url'' \<mapsto> KStr base_url)))"

text \<open>Python's truth value of \<open>batch_num\<close>: \<open>None\<close> and 0 are false.\<close>

fun truthy_int :: "int option \<Rightarrow> bool" where
  "truthy_int None = False"
| "truthy_int (Some n) = (n \<noteq> 0)"

text \<open>
  \<open>api_pool_downloader\<close>. The paginator's method \<open>generate_request_args\<close>, the function
  \<open>pool_kwarg_config\<close> and the constant \<open>POLYGON_BASE_URL\<close> come from modules outside
  the sources at hand: they are the parameters \<open>G\<close>, \<open>cfg\<close> and \<open>base_url\<close>. The pool is
  taken to run to its end.
\<close>

definition api_pool_downloader :: "('a list option \<Rightarrow> 'u list) \<Rightarrow> (kwargs \<Rightarrow> kwargs) \<Rightarrow> string
    \<Rightarrow> 'a list option \<Rightarrow> kwargs \<Rightarrow> int option
    \<Rightarrow> outcome \<times> ('a, 'u, 'm) pool_event list" where
  "api_pool_downloader G cfg base_url args_data pool_kwargs batch_num =
     (let url_args = G args_data;
          tr = [LogGenerating, GenerateRequestArgs args_data]
      in if url_args \<noteq> [] then
           (let tr = tr @ [LogFetching, LogTasks (length url_args)]
            in case session_kwargs base_url pool_kwargs of
                 Inl e \<Rightarrow> (Raised e, tr)
               | Inr pool_kwargs \<Rightarrow>
                   (Returned, tr @ [PoolStarmap (cfg pool_kwargs) url_args, LogFinished]))
         else if truthy_int batch_num then (Returned, tr @ [LogNoData (the batch_num)])
         else (Returned, tr))"

text \<open>\<open>api_quote_downloader\<close>: the same with a \<open>QuotePool\<close> and the count mapping.\<close>

definition api_quote_downloader :: "('a list option \<Rightarrow> 'u list \<times> 'm) \<Rightarrow> (kwargs \<Rightarrow> kwargs)
    \<Rightarrow> string \<Rightarrow> 'a list option \<Rightarrow> kwargs
    \<Rightarrow> outcome \<times> ('a, 'u, 'm) pool_event list" where
  "api_quote_downloader G cfg base_url args_data pool_kwargs =
     (let (url_args, o_ticker_count_mapping) = G args_data;
          tr = [LogGenerating, GenerateRequestArgs args_data]
      in if url_args \<noteq> [] then
           (let tr = tr @ [LogFetching, LogTasks (length url_args)]
            in case session_kwargs base_url pool_kwargs of
                 Inl e \<Rightarrow> (Raised e, tr)
               | Inr pool_kwargs \<Rightarrow>
                   (Returned,
                    tr @ [LogCreatingQuotePool,
                          QuotePoolStarmap (cfg pool_kwargs) o_ticker_count_mapping url_args,
                          LogFinished]))
         else (Returned, tr))"

definition BATCH_SIZE_OTICKERS :: nat where
  "BATCH_SIZE_OTICKERS = 1000"

text \<open>
  The loop \<open>for i in range(0, len(batch_o_tickers), BATCH_SIZE_OTICKERS)\<close> of
  \<open>download_options_quotes\<close>, from the index \<open>i\<close> on: each turn passes the slice
  \<open>batch_o_tickers[i : i + BATCH_SIZE_OTICKERS]\<close> to the downloader \<open>dl\<close>, and an
  exception of the downloader ends the loop. The result lists the turns: the slice and
  the effects of the downloader on it.
\<close>

function batch_loop :: "('a list \<Rightarrow> outcome \<times> 'e list) \<Rightarrow> nat \<Rightarrow> 'a list
    \<Rightarrow> outcome \<times> ('a list \<times> 'e list) list" where
  "batch_loop dl i batch_o_tickers =
     (if i < length batch_o_tickers then
        (let small_batch = take BATCH_SIZE_OTICKERS (drop i batch_o_tickers);
             (out, tr) = dl small_batch
         in if out = Returned then
              (let (out, turns) = batch_loop dl (i + BATCH_SIZE_OTICKERS) batch_o_tickers
               in (out, (small_batch, tr) # turns))
            else (out, [(small_batch, tr)]))
      else (Returned, []))"
  by pat_completeness auto
termination
  by (relation "measure (\<lambda>(dl, i, xs). length xs - i)") (auto simp: BATCH_SIZE_OTICKERS_def)

declare batch_loop.simps [simp del]

text \<open>
  \<open>download_options_quotes\<close>. The class \<open>HistoricalQuotes\<close> is outside the sources at
  hand: the parameter \<open>HistoricalQuotes\<close> gives, for \<open>months_hist\<close> and the lookup of all
  the option tickers, the method \<open>generate_request_args\<close> of the paginator. The dict
  comprehension keeps the order of first insertion and the last value of a key.
\<close>

definition dict_of :: "('k \<times> 'v) list \<Rightarrow> ('k \<times> 'v) list" where
  "dict_of kvs = foldl (\<lambda>d (k, v). AList.update k v d) [] kvs"

definition quote_pool_kwargs :: kwargs where
  "quote_pool_kwargs =
     [''childconcurrency'' \<mapsto> KInt 14, ''maxtasksperchild'' \<mapsto> KInt 1000,
      ''processes'' \<mapsto> KInt 30]"

definition download_options_quotes ::
   "(int \<Rightarrow> (string \<times> int) list \<Rightarrow> OptionTicker list option \<Rightarrow> 'u list \<times> 'm)
    \<Rightarrow> (kwargs \<Rightarrow> kwargs) \<Rightarrow> string \<Rightarrow> string \<Rightarrow> OptionTicker list \<Rightarrow> int
    \<Rightarrow> outcome \<times> (OptionTicker list \<times> (OptionTicker, 'u, 'm) pool_event list) list" where
  "download_options_quotes HistoricalQuotes cfg base_url ticker o_tickers months_hist =
     (let pool_kwargs = quote_pool_kwargs;
          o_ticker_lookup = dict_of (map (\<lambda>x. (o_ticker x, id_num x)) o_tickers);
          op_quotes = HistoricalQuotes months_hist o_ticker_lookup;
          batch_o_tickers = filter (\<lambda>x. underlying_ticker x = ticker) o_tickers
      in batch_loop
           (\<lambda>small_batch. api_quote_downloader op_quotes cfg base_url (Some small_batch) pool_kwargs)
           0 batch_o_tickers)"

fun is_pool_run :: "('a, 'u, 'm) pool_event \<Rightarrow> bool" where
  "is_pool_run (PoolStarmap kw url_args) = True"
| "is_pool_run (QuotePoolStarmap kw m url_args) = True"
| "is_pool_run e = False"

section \<open>The orchestrator of \<open>option_bot/data_pipeline/orchestrator.py\<close>\<close>

text \<open>
  The effects of the orchestrator are calls of its collaborators: the two queries of the
  database (inside \<open>pull_tickers_from_db\<close> and \<open>generate_o_ticker_lookup\<close>), the downloads
  and the uploads. A stock row is \<open>(id, ticker)\<close> and an option row is
  \<open>(o_ticker, id, expiration_date, underlying_ticker)\<close>.
\<close>

type_synonym stock_row = "int \<times> string"
type_synonym option_row = "string \<times> int \<times> int \<times> string"

datatype pipeline_event =
    DownloadStockMetadata "string list" bool
  | UploadStockMetadata "string list" bool
  | QueryStockTickers "string list" bool
  | DownloadStockPrices "(string \<times> int) list" int int
  | UploadStockPrices "(string \<times> int) list"
  | DownloadOptionsContracts "(string \<times> int) list" int
  | UploadOptionsContracts "(string \<times> int) list" int
  | QueryOptionsTickers "string list" bool bool
  | DownloadOptionsPrices "OptionTicker list" int
  | UploadOptionsPrices "(string \<times> OptionTicker) list"
  | DownloadOptionsSnapshots "OptionTicker list"
  | UploadOptionsSnapshots "(string \<times> OptionTicker) list"
  | DownloadOptionsQuotes "OptionTicker list" int
  | UploadOptionsQuotes "(string \<times> OptionTicker) list"

text \<open>
  The database is a collaborator: what a query returns is a function of all the effects
  so far, the query included (\<open>QS\<close> for \<open>query_stock_tickers\<close>, \<open>QO\<close> for
  \<open>query_options_tickers\<close>). The state of a run is its trace and the two local variables
  \<open>ticker_lookup\<close> and \<open>o_tickers\<close> (the fields \<open>var_ticker_lookup\<close> and \<open>var_o_tickers\<close>),
  \<open>None\<close> at first; the flag \<open>all_\<close> is \<open>all_flag\<close>. Downloads and uploads are taken to
  return.
\<close>

record run =
  trace :: "pipeline_event list"
  var_ticker_lookup :: "(string \<times> int) list option"
  var_o_tickers :: "(string \<times> OptionTicker) list option"

definition mk_OptionTicker :: "option_row \<Rightarrow> OptionTicker" where
  "mk_OptionTicker x =
     (case x of (a, b, c, d) \<Rightarrow>
        \<lparr>o_ticker = a, id_num = b, expiration_date = c, underlying_ticker = d\<rparr>)"

definition pull_tickers_from_db :: "(pipeline_event list \<Rightarrow> stock_row list)
    \<Rightarrow> string list \<Rightarrow> bool \<Rightarrow> run \<Rightarrow> run" where
  "pull_tickers_from_db QS tickers all_flag s =
     (let tr = trace s @ [QueryStockTickers tickers all_flag];
          ticker_results = QS tr
      in s\<lparr>trace := tr,
           var_ticker_lookup := Some (dict_of (map (\<lambda>x. (snd x, fst x)) ticker_results))\<rparr>)"

text \<open>The dict \<open>{x[0]: OptionTicker(*x) for x in o_tickers}\<close> of \<open>generate_o_ticker_lookup\<close>.\<close>

definition o_ticker_dict :: "option_row list \<Rightarrow> (string \<times> OptionTicker) list" where
  "o_ticker_dict rows = dict_of (map (\<lambda>x. (fst x, mk_OptionTicker x)) rows)"

definition generate_o_ticker_lookup :: "(pipeline_event list \<Rightarrow> option_row list)
    \<Rightarrow> string list \<Rightarrow> bool \<Rightarrow> bool \<Rightarrow> run \<Rightarrow> run" where
  "generate_o_ticker_lookup QO tickers all_flag unexpired s =
     (let tr = trace s @ [QueryOptionsTickers tickers all_flag unexpired];
          o_tickers = QO tr
      in s\<lparr>trace := tr, var_o_tickers := Some (o_ticker_dict o_tickers)\<rparr>)"

text \<open>Python's \<open>not d\<close> for a variable that is \<open>None\<close> or a dict.\<close>

fun not_dict :: "('k \<times> 'v) list option \<Rightarrow> bool" where
  "not_dict None = True"
| "not_dict (Some d) = (d = [])"

definition emit :: "pipeline_event list \<Rightarrow> run \<Rightarrow> run" where
  "emit es s = s\<lparr>trace := trace s @ es\<rparr>"

definition values_of :: "('k \<times> 'v) list option \<Rightarrow> 'v list" where
  "values_of d = map snd (the d)"

text \<open>The six blocks of \<open>import_partial\<close>, in the order of the source.\<close>

definition stage1 :: "int list \<Rightarrow> string list \<Rightarrow> bool \<Rightarrow> run \<Rightarrow> run" where
  "stage1 partial tickers all_flag s =
     (if 1 \<in> set partial
      then emit [DownloadStockMetadata tickers all_flag, UploadStockMetadata tickers all_flag] s
      else s)"

definition stage2 :: "(pipeline_event list \<Rightarrow> stock_row list) \<Rightarrow> int list \<Rightarrow> string list
    \<Rightarrow> bool \<Rightarrow> int \<Rightarrow> int \<Rightarrow> run \<Rightarrow> run" where
  "stage2 QS partial tickers all_flag start_date end_date s =
     (if 2 \<in> set partial then
        (let s = pull_tickers_from_db QS tickers all_flag s
         in emit [DownloadStockPrices (the (var_ticker_lookup s)) start_date end_date,
                  UploadStockPrices (the (var_ticker_lookup s))] s)
      else s)"

definition stage3 :: "(pipeline_event list \<Rightarrow> stock_row list) \<Rightarrow> int list \<Rightarrow> string list
    \<Rightarrow> bool \<Rightarrow> int \<Rightarrow> run \<Rightarrow> run" where
  "stage3 QS partial tickers all_flag months_hist s =
     (if 3 \<in> set partial then
        (let s = (if not_dict (var_ticker_lookup s) then pull_tickers_from_db QS tickers all_flag s
                  else s)
         in emit [DownloadOptionsContracts (the (var_ticker_lookup s)) months_hist,
                  UploadOptionsContracts (the (var_ticker_lookup s)) months_hist] s)
      else s)"

definition stage4 :: "(pipeline_event list \<Rightarrow> option_row list) \<Rightarrow> int list \<Rightarrow> string list
    \<Rightarrow> bool \<Rightarrow> int \<Rightarrow> run \<Rightarrow> run" where
  "stage4 QO partial tickers all_flag months_hist s =
     (if 4 \<in> set partial then
        (let s = generate_o_ticker_lookup QO tickers all_flag False s
         in emit [DownloadOptionsPrices (values_of (var_o_tickers s)) months_hist,
                  UploadOptionsPrices (the (var_o_tickers s))] s)
      else s)"

definition stage5 :: "(pipeline_event list \<Rightarrow> option_row list) \<Rightarrow> int list \<Rightarrow> string list
    \<Rightarrow> bool \<Rightarrow> run \<Rightarrow> run" where
  "stage5 QO partial tickers all_flag s =
     (if 5 \<in> set partial then
        (let s = (if not_dict (var_o_tickers s) then generate_o_ticker_lookup QO tickers all_flag True s
                  else s)
         in emit [DownloadOptionsSnapshots (values_of (var_o_tickers s)),
                  UploadOptionsSnapshots (the (var_o_tickers s))] s)
      else s)"

definition stage6 :: "(pipeline_event list \<Rightarrow> option_row list) \<Rightarrow> int list \<Rightarrow> string list
    \<Rightarrow> bool \<Rightarrow> int \<Rightarrow> run \<Rightarrow> run" where
  "stage6 QO partial tickers all_flag months_hist s =
     (if 6 \<in> set partial then
        (let s = (if not_dict (var_o_tickers s) then generate_o_ticker_lookup QO tickers all_flag False s
                  else s)
         in emit [DownloadOptionsQuotes (values_of (var_o_tickers s)) months_hist,
                  UploadOptionsQuotes (the (var_o_tickers s))] s)
      else s)"

definition stock_stages :: "(pipeline_event list \<Rightarrow> stock_row list) \<Rightarrow> int list \<Rightarrow> string list
    \<Rightarrow> int \<Rightarrow> int \<Rightarrow> int \<Rightarrow> run" where
  "stock_stages QS partial tickers start_date end_date months_hist =
     (let all_flag = (length tickers = 0);
          s = \<lparr>trace = [], var_ticker_lookup = None, var_o_tickers = None\<rparr>;
          s = stage1 partial tickers all_flag s;
          s = stage2 QS partial tickers all_flag start_date end_date s
      in stage3 QS partial tickers all_flag months_hist s)"

definition import_partial :: "(pipeline_event list \<Rightarrow> stock_row list)
    \<Rightarrow> (pipeline_event list \<Rightarrow> option_row list) \<Rightarrow> int list \<Rightarrow> string list
    \<Rightarrow> int \<Rightarrow> int \<Rightarrow> int \<Rightarrow> pipeline_event list" where
  "import_partial QS QO partial tickers start_date end_date months_hist =
     (let all_flag = (length tickers = 0);
          s = stock_stages QS partial tickers start_date end_date months_hist;
          s = stage4 QO partial tickers all_flag months_hist s;
          s = stage5 QO partial tickers all_flag s;
          s = stage6 QO partial tickers all_flag months_hist s
      in trace s)"

fun is_options_query :: "pipeline_event \<Rightarrow> bool" where
  "is_options_query (QueryOptionsTickers tickers all_flag unexpired) = True"
| "is_options_query e = False"

fun is_quotes_download :: "pipeline_event \<Rightarrow> bool" where
  "is_quotes_download (DownloadOptionsQuotes ots months_hist) = True"
| "is_quotes_download e = False"

text \<open>
  A trace up to and including its last query of the option tickers (empty when it has
  none).
\<close>

definition upto_last_query :: "pipeline_event list \<Rightarrow> pipeline_event list" where
  "upto_last_query tr = rev (dropWhile (\<lambda>e. \<not> is_options_query e) (rev tr))"

text \<open>
  \<open>remove_tickers_from_universe\<close>, the same loop in \<open>option_bot/orchestrator.py\<close> and in
  \<open>option_bot/data_pipeline/orchestrator.py\<close>. \<open>delete_stock_ticker\<close> is a collaborator:
  \<open>D\<close> tells, from all the effects so far, the call included, whether the call raises
  (\<open>Some\<close>) or returns (\<open>None\<close>); what it returns is dropped by the loop.
\<close>

datatype removal_event = LogDeleting string | DeleteStockTicker string | LogDeleted string



fun deleted :: "removal_event list \<Rightarrow> string list" where
  "deleted [] = []"
| "deleted (DeleteStockTicker t # es) = t # deleted es"
| "deleted (e # es) = deleted es"

fun reported :: "removal_event list \<Rightarrow> string list" where
  "reported [] = []"
| "reported (LogDeleted t # es) = t # reported es"
| "reported (e # es) = reported es"

section \<open>The sleep duration\<close>

lemma total_seconds_5: "\<lceil>total_seconds 5000000\<rceil> = 5"
  by (simp add: total_seconds_def)

text \<open>
  C1: \<open>_api_sleep_time\<close> returns 60 when the log holds fewer than 3 entries, and otherwise
  the lesser of 60 and the ceiling of the seconds between the first and the last logged
  request; when the last is 5 seconds after the first, it returns 5.
\<close>

theorem api_sleep_time_spec:
  "(length (query_time_log self) < 3 \<longrightarrow> api_sleep_time T self = 60) \<and>
   (length (query_time_log self) \<ge> 3 \<longrightarrow>
      api_sleep_time T self =
        min 60 \<lceil>total_seconds (T (query_timestamp (last (query_time_log self)))
                                - T (query_timestamp (hd (query_time_log self))))\<rceil>) \<and>
   (length (query_time_log self) \<ge> 3 \<and>
    T (query_timestamp (last (query_time_log self)))
      = T (query_timestamp (hd (query_time_log self))) + 5000000 \<longrightarrow>
      api_sleep_time T self = 5)"
  by (auto simp: api_sleep_time_def Let_def total_seconds_5)

theorem api_sleep_time_spec_witness:
  "api_sleep_time (\<lambda>t. \<lfloor>t * 1000000\<rfloor>)
      \<lparr>query_count = 3,
       query_time_log = [\<lparr>request_id = None, query_timestamp = 100\<rparr>,
                         \<lparr>request_id = None, query_timestamp = 102\<rparr>,
                         \<lparr>request_id = None, query_timestamp = 105\<rparr>],
       results = ([] :: nat list)\<rparr> = 5 \<and>
   api_sleep_time (\<lambda>t. \<lfloor>t * 1000000\<rfloor>)
      \<lparr>query_count = 2,
       query_time_log = [\<lparr>request_id = None, query_timestamp = 100\<rparr>,
                         \<lparr>request_id = None, query_timestamp = 105\<rparr>],
       results = ([] :: nat list)\<rparr> = 60"
  using api_sleep_time_spec [of "\<lparr>query_count = 3,
       query_time_log = [\<lparr>request_id = None, query_timestamp = 100\<rparr>,
                         \<lparr>request_id = None, query_timestamp = 102\<rparr>,
                         \<lparr>request_id = None, query_timestamp = 105\<rparr>],
       results = ([] :: nat list)\<rparr>" "\<lambda>t. \<lfloor>t * 1000000\<rfloor>"]
     api_sleep_time_spec [of "\<lparr>query_count = 2,
       query_time_log = [\<lparr>request_id = None, query_timestamp = 100\<rparr>,
                         \<lparr>request_id = None, query_timestamp = 105\<rparr>],
       results = ([] :: nat list)\<rparr>" "\<lambda>t. \<lfloor>t * 1000000\<rfloor>"]
  by simp

section \<open>The throttle of \<open>query_all\<close>\<close>

lemma query_all_reply:
  "query_all K T (Responds response now # world) self url payload overload =
     (Raised AttributeError, snd (throttle T self overload),
      fst (throttle T self overload) @
      [(Get url (payload(''apiKey'' \<mapsto> K)), snd (throttle T self overload))])"
  by (simp add: query_all.simps response_get_def Let_def case_prod_unfold)

lemma query_all_starts:
  "\<exists>rest. snd (snd (query_all K T world self url payload overload)) =
     fst (throttle T self overload) @
     (Get url (payload(''apiKey'' \<mapsto> K)), snd (throttle T self overload)) # rest"
proof (cases world)
  case Nil
  then show ?thesis by (simp add: query_all.simps Let_def case_prod_unfold)
next
  case (Cons r w)
  then show ?thesis
    by (cases r) (simp_all add: query_all_reply query_all.simps Let_def case_prod_unfold)
qed

text \<open>
  C2: \<open>query_all\<close> sleeps before it issues its request exactly when the counter has
  reached \<open>MAX_QUERY_PER_MINUTE\<close> or the caller passes \<open>overload\<close>; the request that
  follows the sleep is sent by a paginator whose counter is 0 and whose log is empty.
\<close>

theorem query_all_throttles:
  "\<exists>out self' rest.
     query_all K T world self url payload overload =
       (out, self',
        (if query_count self \<ge> MAX_QUERY_PER_MINUTE \<or> overload
         then [(Sleep (api_sleep_time T self), self),
               (Get url (payload(''apiKey'' \<mapsto> K)),
                self\<lparr>query_count := 0, query_time_log := []\<rparr>)]
         else [(Get url (payload(''apiKey'' \<mapsto> K)), self)]) @ rest)"
proof -
  obtain out self' tr where q: "query_all K T world self url payload overload = (out, self', tr)"
    by (cases "query_all K T world self url payload overload") auto
  from query_all_starts [of K T world self url payload overload] q
  show ?thesis by (auto simp: throttle_def)
qed

theorem query_all_throttles_witness:
  "\<exists>out self' rest.
     query_all ''k'' (\<lambda>t. \<lfloor>t * 1000000\<rfloor>) []
        \<lparr>query_count = 4, query_time_log = [], results = ([] :: nat list)\<rparr>
        ''u'' Map.empty False =
       (out, self',
        [(Sleep 60, \<lparr>query_count = 4, query_time_log = [], results = []\<rparr>),
         (Get ''u'' [''apiKey'' \<mapsto> ''k''],
          \<lparr>query_count = 0, query_time_log = [], results = []\<rparr>)] @ rest)"
  using query_all_throttles [of "''k''" "\<lambda>t. \<lfloor>t * 1000000\<rfloor>" "[]"
        "\<lparr>query_count = 4, query_time_log = [], results = ([] :: nat list)\<rparr>"
        "''u''" Map.empty False]
  by (simp add: MAX_QUERY_PER_MINUTE_def api_sleep_time_def)

section \<open>What a response does to \<open>query_all\<close>\<close>

lemma fetches_Nil [simp]: "fetches [] = []"
  by (simp add: fetches_def)

lemma fetches_throttle [simp]: "fetches (fst (throttle T self overload)) = []"
  by (simp add: throttle_def fetches_def)

lemma fetches_append [simp]: "fetches (xs @ ys) = fetches xs @ fetches ys"
  by (simp add: fetches_def)

lemma fetches_Get [simp]: "fetches ((Get u p, s) # xs) = (Get u p, s) # fetches xs"
  by (simp add: fetches_def)

lemma results_throttle [simp]: "results (snd (throttle T self overload)) = results self"
  by (simp add: throttle_def)

lemma query_all_one_request:
  "length (fetches (snd (snd (query_all K T world self url payload overload)))) = 1"
proof (cases world)
  case Nil
  then show ?thesis by (simp add: query_all.simps Let_def case_prod_unfold)
next
  case (Cons r w)
  then show ?thesis
    by (cases r) (simp_all add: query_all_reply query_all.simps Let_def case_prod_unfold)
qed

text \<open>
  C3: the claim is that \<open>query_all\<close> fetches the n pages of an endpoint and stores the n
  bodies in order. The code does not: whatever the endpoint serves after the first
  response, the call ends with \<open>AttributeError\<close> after one fetch, with no body stored
  and no cursor followed.
\<close>

theorem query_all_stores_no_page:
  "fst (query_all K T (Responds response now # world) self url payload overload)
     = Raised AttributeError \<and>
   results (fst (snd (query_all K T (Responds response now # world) self url payload overload)))
     = results self \<and>
   map fst (fetches (snd (snd (query_all K T (Responds response now # world) self url payload
                                   overload))))
     = [Get url (payload(''apiKey'' \<mapsto> K))]"
  by (simp add: query_all_reply)

theorem query_all_stores_no_page_witness:
  "fst (query_all ''k'' (\<lambda>t. \<lfloor>t * 1000000\<rfloor>)
         [Responds \<lparr>status_code = 200, json = (1::nat, Some ''u2'')\<rparr> 10,
          Responds \<lparr>status_code = 200, json = (2, Some ''u3'')\<rparr> 11,
          Responds \<lparr>status_code = 200, json = (3, None)\<rparr> 12]
         init ''u1'' Map.empty False)
     = Raised AttributeError \<and>
   results (fst (snd (query_all ''k'' (\<lambda>t. \<lfloor>t * 1000000\<rfloor>)
         [Responds \<lparr>status_code = 200, json = (1::nat, Some ''u2'')\<rparr> 10,
          Responds \<lparr>status_code = 200, json = (2, Some ''u3'')\<rparr> 11,
          Responds \<lparr>status_code = 200, json = (3, None)\<rparr> 12]
         init ''u1'' Map.empty False)))
     = [] \<and>
   map fst (fetches (snd (snd (query_all ''k'' (\<lambda>t. \<lfloor>t * 1000000\<rfloor>)
         [Responds \<lparr>status_code = 200, json = (1::nat, Some ''u2'')\<rparr> 10,
          Responds \<lparr>status_code = 200, json = (2, Some ''u3'')\<rparr> 11,
          Responds \<lparr>status_code = 200, json = (3, None)\<rparr> 12]
         init ''u1'' Map.empty False))))
     = [Get ''u1'' [''apiKey'' \<mapsto> ''k'']]"
  using query_all_stores_no_page [of "''k''" "\<lambda>t. \<lfloor>t * 1000000\<rfloor>"
         "\<lparr>status_code = 200, json = (1::nat, Some ''u2'')\<rparr>" 10
         "[Responds \<lparr>status_code = 200, json = (2, Some ''u3'')\<rparr> 11,
           Responds \<lparr>status_code = 200, json = (3, None)\<rparr> 12]"
         init "''u1''" Map.empty False]
  by (simp add: init_def)

text \<open>
  C4: the claim is that after a response with status 429 \<open>query_all\<close> sleeps and sends the
  same request again, and that the 429 never reaches the caller as an error. The code
  does not: the response with status 429 ends the call with \<open>AttributeError\<close> before its
  status is tested; the request of the call is the last effect, with no sleep and no
  retry after it.
\<close>

theorem query_all_no_retry_after_429:
  "status_code response = 429 \<longrightarrow>
     query_all K T (Responds response now # world) self url payload overload =
       (if query_count self \<ge> MAX_QUERY_PER_MINUTE \<or> overload
        then (Raised AttributeError,
              self\<lparr>query_count := 0, query_time_log := []\<rparr>,
              [(Sleep (api_sleep_time T self), self),
               (Get url (payload(''apiKey'' \<mapsto> K)),
                self\<lparr>query_count := 0, query_time_log := []\<rparr>)])
        else (Raised AttributeError, self,
              [(Get url (payload(''apiKey'' \<mapsto> K)), self)]))"
  by (simp add: query_all_reply throttle_def)

theorem query_all_no_retry_after_429_witness:
  "query_all ''k'' (\<lambda>t. \<lfloor>t * 1000000\<rfloor>)
     [Responds \<lparr>status_code = 429, json = (0::nat)\<rparr> 10,
      Responds \<lparr>status_code = 200, json = 7\<rparr> 11]
     init ''u'' Map.empty False =
   (Raised AttributeError,
    \<lparr>query_count = 0, query_time_log = [], results = []\<rparr>,
    [(Get ''u'' [''apiKey'' \<mapsto> ''k''],
      \<lparr>query_count = 0, query_time_log = [], results = []\<rparr>)])"
  using query_all_no_retry_after_429 [of "\<lparr>status_code = 429, json = (0::nat)\<rparr>"
     "''k''" "\<lambda>t. \<lfloor>t * 1000000\<rfloor>" 10 "[Responds \<lparr>status_code = 200, json = 7\<rparr> 11]"
     init "''u''" Map.empty False]
  by (simp add: init_def MAX_QUERY_PER_MINUTE_def)

section \<open>The counter and the log\<close>

text \<open>
  C10: the claim is that the counter equals the length of the log, both 0 at
  construction, that each issued request appends one log entry and adds one to the
  counter, and that the throttle clears both. The code does not record a request: after
  a call whose request got a response, the counter and the log are what they were before
  the call, or 0 and empty when the call slept (so they stay equal in length, and a new
  paginator still has counter 0 and an empty log after its first request).
\<close>

theorem query_all_records_nothing:
  "query_count (fst (snd (query_all K T (Responds response now # world) self url payload
                            overload)))
     = (if query_count self \<ge> MAX_QUERY_PER_MINUTE \<or> overload then 0 else query_count self) \<and>
   query_time_log (fst (snd (query_all K T (Responds response now # world) self url payload
                               overload)))
     = (if query_count self \<ge> MAX_QUERY_PER_MINUTE \<or> overload then []
        else query_time_log self) \<and>
   length (fetches (snd (snd (query_all K T (Responds response now # world) self url payload
                                overload)))) = 1"
  by (simp add: query_all_reply) (simp add: throttle_def)

theorem query_all_records_nothing_witness:
  "query_count (fst (snd (query_all ''k'' (\<lambda>t. \<lfloor>t * 1000000\<rfloor>)
      [Responds \<lparr>status_code = 200, json = (1::nat)\<rparr> 10] init ''u'' Map.empty False))) = 0 \<and>
   query_time_log (fst (snd (query_all ''k'' (\<lambda>t. \<lfloor>t * 1000000\<rfloor>)
      [Responds \<lparr>status_code = 200, json = (1::nat)\<rparr> 10] init ''u'' Map.empty False))) = [] \<and>
   length (fetches (snd (snd (query_all ''k'' (\<lambda>t. \<lfloor>t * 1000000\<rfloor>)
      [Responds \<lparr>status_code = 200, json = (1::nat)\<rparr> 10] init ''u'' Map.empty False)))) = 1"
  using query_all_records_nothing [of "''k''" "\<lambda>t. \<lfloor>t * 1000000\<rfloor>"
      "\<lparr>status_code = 200, json = (1::nat)\<rparr>" 10 "[]" init "''u''" Map.empty False]
  by (simp add: init_def throttle_def MAX_QUERY_PER_MINUTE_def)

section \<open>The slices of \<open>download_options_quotes\<close>\<close>

lemma session_kwargs_quote:
  "session_kwargs base_url quote_pool_kwargs =
     Inr (quote_pool_kwargs(''init_client_session'' \<mapsto> KBool True,
                            ''session_base_url'' \<mapsto> KStr base_url))"
  by (simp add: session_kwargs_def quote_pool_kwargs_def)

lemma api_quote_downloader_returns:
  "fst (api_quote_downloader G cfg base_url args_data quote_pool_kwargs) = Returned"
  by (simp add: api_quote_downloader_def session_kwargs_quote Let_def case_prod_unfold)

lemma batch_loop_returns:
  "(\<And>b. fst (dl b) = Returned) \<Longrightarrow> fst (batch_loop dl i xs) = Returned"
proof (induction dl i xs rule: batch_loop.induct)
  case (1 dl i xs)
  show ?case
  proof (cases "i < length xs")
    case True
    obtain out tr where d: "dl (take BATCH_SIZE_OTICKERS (drop i xs)) = (out, tr)"
      by (cases "dl (take BATCH_SIZE_OTICKERS (drop i xs))") auto
    with "1.prems" [of "take BATCH_SIZE_OTICKERS (drop i xs)"] have out: "out = Returned"
      by simp
    have "fst (batch_loop dl (i + BATCH_SIZE_OTICKERS) xs) = Returned"
      using "1.IH" [OF True refl refl d [symmetric] out] "1.prems" by simp
    with True d out show ?thesis
      by (subst batch_loop.simps) (simp add: case_prod_unfold)
  next
    case False
    then show ?thesis by (subst batch_loop.simps) simp
  qed
qed


lemma batch_loop_done:
  "\<not> i < length xs \<Longrightarrow> batch_loop dl i xs = (Returned, [])"
  by (subst batch_loop.simps) simp

lemma batch_loop_turn:
  assumes "\<And>b. fst (dl b) = Returned" and "i < length xs"
  shows "map fst (snd (batch_loop dl i xs)) =
           take BATCH_SIZE_OTICKERS (drop i xs)
           # map fst (snd (batch_loop dl (i + BATCH_SIZE_OTICKERS) xs))"
proof -
  have "fst (dl (take BATCH_SIZE_OTICKERS (drop i xs))) = Returned"
    by (rule assms(1))
  with assms(2) show ?thesis
    by (subst batch_loop.simps) (simp add: case_prod_unfold Let_def)
qed

lemma batch_loop_concat:
  assumes "\<And>b. fst (dl b) = Returned"
  shows "concat (map fst (snd (batch_loop dl i xs))) = drop i xs"
proof (induction "length xs - i" arbitrary: i rule: less_induct)
  case less
  show ?case
  proof (cases "i < length xs")
    case True
    then have "length xs - (i + BATCH_SIZE_OTICKERS) < length xs - i"
      by (simp add: BATCH_SIZE_OTICKERS_def)
    from less [OF this] True
      append_take_drop_id [of BATCH_SIZE_OTICKERS "drop i xs"]
    show ?thesis
      by (simp add: batch_loop_turn [OF assms True] add.commute)
  next
    case False
    then show ?thesis by (simp add: batch_loop_done)
  qed
qed

lemma batch_loop_sizes:
  assumes "\<And>b. fst (dl b) = Returned"
  shows "map length (map fst (snd (batch_loop dl i xs))) =
           replicate ((length xs - i) div BATCH_SIZE_OTICKERS) BATCH_SIZE_OTICKERS
           @ (if (length xs - i) mod BATCH_SIZE_OTICKERS = 0 then []
              else [(length xs - i) mod BATCH_SIZE_OTICKERS])"
proof (induction "length xs - i" arbitrary: i rule: less_induct)
  case less
  show ?case
  proof (cases "i < length xs")
    case True
    then have lt: "length xs - (i + BATCH_SIZE_OTICKERS) < length xs - i"
      by (simp add: BATCH_SIZE_OTICKERS_def)
    show ?thesis
    proof (cases "length xs - i < BATCH_SIZE_OTICKERS")
      case small: True
      with True have "\<not> i + BATCH_SIZE_OTICKERS < length xs" by simp
      with True small show ?thesis
        by (simp add: batch_loop_turn [OF assms True] batch_loop_done)
    next
      case big: False
      then have d: "(length xs - i) div BATCH_SIZE_OTICKERS
           = Suc ((length xs - (i + BATCH_SIZE_OTICKERS)) div BATCH_SIZE_OTICKERS)"
        and m: "(length xs - i) mod BATCH_SIZE_OTICKERS
           = (length xs - (i + BATCH_SIZE_OTICKERS)) mod BATCH_SIZE_OTICKERS"
        by (simp_all add: BATCH_SIZE_OTICKERS_def le_div_geq le_mod_geq)
      from big have "min (length xs - i) BATCH_SIZE_OTICKERS = BATCH_SIZE_OTICKERS"
        by simp
      with less [OF lt] show ?thesis
        by (simp add: batch_loop_turn [OF assms True] d m)
    qed
  next
    case False
    then show ?thesis by (simp add: batch_loop_done)
  qed
qed


lemma batch_loop_effects:
  assumes "\<And>b. fst (dl b) = Returned"
  shows "map snd (snd (batch_loop dl i xs)) = map (\<lambda>b. snd (dl b)) (map fst (snd (batch_loop dl i xs)))"
proof (induction "length xs - i" arbitrary: i rule: less_induct)
  case less
  show ?case
  proof (cases "i < length xs")
    case True
    then have lt: "length xs - (i + BATCH_SIZE_OTICKERS) < length xs - i"
      by (simp add: BATCH_SIZE_OTICKERS_def)
    have "fst (dl (take BATCH_SIZE_OTICKERS (drop i xs))) = Returned"
      by (rule assms)
    with True less [OF lt] show ?thesis
      by (subst (1 2) batch_loop.simps) (simp add: case_prod_unfold Let_def)
  next
    case False
    then show ?thesis by (simp add: batch_loop_done)
  qed
qed

lemma quotes_returns:
  "fst (download_options_quotes H cfg base_url ticker o_tickers months_hist) = Returned"
  by (simp add: download_options_quotes_def Let_def batch_loop_returns
      api_quote_downloader_returns)

lemma quotes_concat:
  "concat (map fst (snd (download_options_quotes H cfg base_url ticker o_tickers months_hist)))
     = filter (\<lambda>x. underlying_ticker x = ticker) o_tickers"
  by (simp add: download_options_quotes_def Let_def batch_loop_concat
      api_quote_downloader_returns)

lemma quotes_sizes:
  "map length (map fst (snd (download_options_quotes H cfg base_url ticker o_tickers months_hist)))
     = replicate (length (filter (\<lambda>x. underlying_ticker x = ticker) o_tickers)
                    div BATCH_SIZE_OTICKERS) BATCH_SIZE_OTICKERS
       @ (if length (filter (\<lambda>x. underlying_ticker x = ticker) o_tickers)
               mod BATCH_SIZE_OTICKERS = 0 then []
          else [length (filter (\<lambda>x. underlying_ticker x = ticker) o_tickers)
                  mod BATCH_SIZE_OTICKERS])"
  using batch_loop_sizes [of "\<lambda>small_batch. api_quote_downloader
        (H months_hist (dict_of (map (\<lambda>x. (o_ticker x, id_num x)) o_tickers)))
        cfg base_url (Some small_batch) quote_pool_kwargs" 0
        "filter (\<lambda>x. underlying_ticker x = ticker) o_tickers"]
  by (simp add: download_options_quotes_def Let_def api_quote_downloader_returns)

lemma quotes_effects:
  "map snd (snd (download_options_quotes H cfg base_url ticker o_tickers months_hist))
     = map (\<lambda>b. snd (api_quote_downloader
                       (H months_hist (dict_of (map (\<lambda>x. (o_ticker x, id_num x)) o_tickers)))
                       cfg base_url (Some b) quote_pool_kwargs))
           (map fst (snd (download_options_quotes H cfg base_url ticker o_tickers months_hist)))"
  using batch_loop_effects [of "\<lambda>small_batch. api_quote_downloader
        (H months_hist (dict_of (map (\<lambda>x. (o_ticker x, id_num x)) o_tickers)))
        cfg base_url (Some small_batch) quote_pool_kwargs" 0
        "filter (\<lambda>x. underlying_ticker x = ticker) o_tickers"]
  by (simp add: download_options_quotes_def Let_def api_quote_downloader_returns)

lemma api_quote_downloader_effects:
  "snd (api_quote_downloader G cfg base_url args_data quote_pool_kwargs) =
     [LogGenerating, GenerateRequestArgs args_data] @
     (if fst (G args_data) = [] then []
      else [LogFetching, LogTasks (length (fst (G args_data))), LogCreatingQuotePool,
            QuotePoolStarmap
              (cfg (quote_pool_kwargs(''init_client_session'' \<mapsto> KBool True,
                                      ''session_base_url'' \<mapsto> KStr base_url)))
              (snd (G args_data)) (fst (G args_data)),
            LogFinished])"
  by (simp add: api_quote_downloader_def session_kwargs_quote Let_def case_prod_unfold)

lemma batch_loop_nonempty:
  assumes "\<And>b. fst (dl b) = Returned"
  shows "b \<in> set (map fst (snd (batch_loop dl i xs))) \<Longrightarrow> b \<noteq> []"
proof (induction "length xs - i" arbitrary: i rule: less_induct)
  case less
  show ?case
  proof (cases "i < length xs")
    case True
    then have lt: "length xs - (i + BATCH_SIZE_OTICKERS) < length xs - i"
      by (simp add: BATCH_SIZE_OTICKERS_def)
    from True have "take BATCH_SIZE_OTICKERS (drop i xs) \<noteq> []"
      by (simp add: BATCH_SIZE_OTICKERS_def)
    with less.hyps [OF lt] less.prems show ?thesis
      by (auto simp: batch_loop_turn [OF assms True])
  next
    case False
    with less.prems show ?thesis by (simp add: batch_loop_done)
  qed
qed

lemma batch_loop_slices:
  assumes "\<And>b. fst (dl b) = Returned"
  shows "map fst (snd (batch_loop dl i xs)) =
           map (\<lambda>k. take BATCH_SIZE_OTICKERS (drop (i + k * BATCH_SIZE_OTICKERS) xs))
               [0 ..< (length xs - i + (BATCH_SIZE_OTICKERS - 1)) div BATCH_SIZE_OTICKERS]"
proof (induction "length xs - i" arbitrary: i rule: less_induct)
  case less
  show ?case
  proof (cases "i < length xs")
    case True
    then have lt: "length xs - (i + BATCH_SIZE_OTICKERS) < length xs - i"
      by (simp add: BATCH_SIZE_OTICKERS_def)
    from True have d: "(length xs - i + (BATCH_SIZE_OTICKERS - 1)) div BATCH_SIZE_OTICKERS
        = Suc ((length xs - (i + BATCH_SIZE_OTICKERS) + (BATCH_SIZE_OTICKERS - 1))
                 div BATCH_SIZE_OTICKERS)"
      unfolding BATCH_SIZE_OTICKERS_def by (cases "1000 \<le> length xs - i") simp_all
    show ?thesis
      unfolding batch_loop_turn [OF assms True] less [OF lt] d
      by (simp add: map_upt_Suc add.assoc add.commute add.left_commute del: upt_Suc)
  next
    case False
    then have "(length xs - i + (BATCH_SIZE_OTICKERS - 1)) div BATCH_SIZE_OTICKERS = 0"
      by (simp add: BATCH_SIZE_OTICKERS_def)
    with False show ?thesis by (simp add: batch_loop_done)
  qed
qed


lemma quotes_slices:
  "map fst (snd (download_options_quotes H cfg base_url ticker o_tickers months_hist))
     = map (\<lambda>k. take 1000 (drop (k * 1000) (filter (\<lambda>x. underlying_ticker x = ticker) o_tickers)))
           [0 ..< (length (filter (\<lambda>x. underlying_ticker x = ticker) o_tickers) + 999) div 1000]"
  using batch_loop_slices [of "\<lambda>small_batch. api_quote_downloader
        (H months_hist (dict_of (map (\<lambda>x. (o_ticker x, id_num x)) o_tickers)))
        cfg base_url (Some small_batch) quote_pool_kwargs" 0
        "filter (\<lambda>x. underlying_ticker x = ticker) o_tickers"]
  by (simp add: download_options_quotes_def Let_def api_quote_downloader_returns
      BATCH_SIZE_OTICKERS_def)

lemma quotes_nonempty:
  "b \<in> set (map fst (snd (download_options_quotes H cfg base_url ticker o_tickers months_hist)))
   \<Longrightarrow> b \<noteq> []"
  using batch_loop_nonempty [of "\<lambda>small_batch. api_quote_downloader
        (H months_hist (dict_of (map (\<lambda>x. (o_ticker x, id_num x)) o_tickers)))
        cfg base_url (Some small_batch) quote_pool_kwargs" b 0
        "filter (\<lambda>x. underlying_ticker x = ticker) o_tickers"]
  by (simp add: download_options_quotes_def Let_def api_quote_downloader_returns)

lemma pair_list:
  "map snd xs = map f (map fst xs) \<Longrightarrow> xs = map (\<lambda>b. (b, f b)) (map fst xs)"
  by (induction xs) auto

lemma quotes_turns:
  "snd (download_options_quotes H cfg base_url ticker o_tickers months_hist)
     = map (\<lambda>b. (b,
             [LogGenerating, GenerateRequestArgs (Some b)] @
             (if fst (H months_hist (dict_of (map (\<lambda>x. (o_ticker x, id_num x)) o_tickers))
                        (Some b)) = [] then []
              else [LogFetching,
                    LogTasks (length (fst (H months_hist
                       (dict_of (map (\<lambda>x. (o_ticker x, id_num x)) o_tickers)) (Some b)))),
                    LogCreatingQuotePool,
                    QuotePoolStarmap
                      (cfg (quote_pool_kwargs(''init_client_session'' \<mapsto> KBool True,
                                              ''session_base_url'' \<mapsto> KStr base_url)))
                      (snd (H months_hist
                         (dict_of (map (\<lambda>x. (o_ticker x, id_num x)) o_tickers)) (Some b)))
                      (fst (H months_hist
                         (dict_of (map (\<lambda>x. (o_ticker x, id_num x)) o_tickers)) (Some b))),
                    LogFinished])))
           (map fst (snd (download_options_quotes H cfg base_url ticker o_tickers months_hist)))"
  using pair_list [OF quotes_effects [of H cfg base_url ticker o_tickers months_hist]]
  by (simp only: api_quote_downloader_effects)

lemma quotes_pool_runs:
  assumes "\<And>b. b \<noteq> [] \<Longrightarrow>
     fst (H months_hist (dict_of (map (\<lambda>x. (o_ticker x, id_num x)) o_tickers)) (Some b)) \<noteq> []"
  shows "map (\<lambda>turn. filter is_pool_run (snd turn))
       (snd (download_options_quotes H cfg base_url ticker o_tickers months_hist))
     = map (\<lambda>b. [QuotePoolStarmap
                    (cfg (quote_pool_kwargs(''init_client_session'' \<mapsto> KBool True,
                                            ''session_base_url'' \<mapsto> KStr base_url)))
                    (snd (H months_hist
                       (dict_of (map (\<lambda>x. (o_ticker x, id_num x)) o_tickers)) (Some b)))
                    (fst (H months_hist
                       (dict_of (map (\<lambda>x. (o_ticker x, id_num x)) o_tickers)) (Some b)))])
           (map fst (snd (download_options_quotes H cfg base_url ticker o_tickers months_hist)))"
proof -
  let ?G = "H months_hist (dict_of (map (\<lambda>x. (o_ticker x, id_num x)) o_tickers))"
  let ?D = "snd (download_options_quotes H cfg base_url ticker o_tickers months_hist)"
  let ?E = "\<lambda>b. [LogGenerating, GenerateRequestArgs (Some b)] @
             (if fst (?G (Some b)) = [] then []
              else [LogFetching, LogTasks (length (fst (?G (Some b)))), LogCreatingQuotePool,
                    QuotePoolStarmap
                      (cfg (quote_pool_kwargs(''init_client_session'' \<mapsto> KBool True,
                                              ''session_base_url'' \<mapsto> KStr base_url)))
                      (snd (?G (Some b))) (fst (?G (Some b))),
                    LogFinished])"
  have "map (\<lambda>turn. filter is_pool_run (snd turn)) ?D
      = map (\<lambda>turn. filter is_pool_run (snd turn)) (map (\<lambda>b. (b, ?E b)) (map fst ?D))"
    by (rule arg_cong [where f = "map (\<lambda>turn. filter is_pool_run (snd turn))", OF quotes_turns])
  also have "\<dots> = map (\<lambda>b. filter is_pool_run (?E b)) (map fst ?D)"
    by (simp only: map_map o_def snd_conv)
  also have "\<dots> = map (\<lambda>b. [QuotePoolStarmap
                    (cfg (quote_pool_kwargs(''init_client_session'' \<mapsto> KBool True,
                                            ''session_base_url'' \<mapsto> KStr base_url)))
                    (snd (?G (Some b))) (fst (?G (Some b)))]) (map fst ?D)"
  proof (rule map_cong [OF refl])
    fix b assume "b \<in> set (map fst ?D)"
    then have "b \<noteq> []" by (rule quotes_nonempty)
    then have "fst (?G (Some b)) \<noteq> []" by (rule assms)
    then show "filter is_pool_run (?E b) = [QuotePoolStarmap
                    (cfg (quote_pool_kwargs(''init_client_session'' \<mapsto> KBool True,
                                            ''session_base_url'' \<mapsto> KStr base_url)))
                    (snd (?G (Some b))) (fst (?G (Some b)))]"
      by simp
  qed
  finally show ?thesis .
qed

text \<open>
  C5: \<open>download_options_quotes\<close> cuts the option tickers selected for \<open>ticker\<close> into
  the consecutive slices of 1000 (the last one shorter when the number is no multiple of
  1000), calls \<open>api_quote_downloader\<close> once on each slice, in order, and returns; the
  slices put together are the selected tickers, and 2500 selected tickers give three
  slices of 1000, 1000 and 500. The call on a slice asks the paginator for the request
  arguments of the slice and, when there are any, runs one \<open>QuotePool\<close> over them, built
  from the keyword arguments of the function and the session settings, with the count
  mapping of the slice; a paginator that yields request arguments for every non-empty
  slice gives exactly one pool run per slice.
\<close>

theorem download_options_quotes_chunks:
  "fst (download_options_quotes H cfg base_url ticker o_tickers months_hist) = Returned \<and>
   map fst (snd (download_options_quotes H cfg base_url ticker o_tickers months_hist))
     = map (\<lambda>k. take 1000 (drop (k * 1000) (filter (\<lambda>x. underlying_ticker x = ticker) o_tickers)))
           [0 ..< (length (filter (\<lambda>x. underlying_ticker x = ticker) o_tickers) + 999) div 1000] \<and>
   concat (map fst (snd (download_options_quotes H cfg base_url ticker o_tickers months_hist)))
     = filter (\<lambda>x. underlying_ticker x = ticker) o_tickers \<and>
   map length (map fst (snd (download_options_quotes H cfg base_url ticker o_tickers months_hist)))
     = replicate (length (filter (\<lambda>x. underlying_ticker x = ticker) o_tickers) div 1000) 1000
       @ (if length (filter (\<lambda>x. underlying_ticker x = ticker) o_tickers) mod 1000 = 0 then []
          else [length (filter (\<lambda>x. underlying_ticker x = ticker) o_tickers) mod 1000]) \<and>
   snd (download_options_quotes H cfg base_url ticker o_tickers months_hist)
     = map (\<lambda>b. (b,
             [LogGenerating, GenerateRequestArgs (Some b)] @
             (if fst (H months_hist (dict_of (map (\<lambda>x. (o_ticker x, id_num x)) o_tickers))
                        (Some b)) = [] then []
              else [LogFetching,
                    LogTasks (length (fst (H months_hist
                       (dict_of (map (\<lambda>x. (o_ticker x, id_num x)) o_tickers)) (Some b)))),
                    LogCreatingQuotePool,
                    QuotePoolStarmap
                      (cfg (quote_pool_kwargs(''init_client_session'' \<mapsto> KBool True,
                                              ''session_base_url'' \<mapsto> KStr base_url)))
                      (snd (H months_hist
                         (dict_of (map (\<lambda>x. (o_ticker x, id_num x)) o_tickers)) (Some b)))
                      (fst (H months_hist
                         (dict_of (map (\<lambda>x. (o_ticker x, id_num x)) o_tickers)) (Some b))),
                    LogFinished])))
           (map fst (snd (download_options_quotes H cfg base_url ticker o_tickers months_hist))) \<and>
   ((\<forall>b. b \<noteq> [] \<longrightarrow>
        fst (H months_hist (dict_of (map (\<lambda>x. (o_ticker x, id_num x)) o_tickers)) (Some b)) \<noteq> [])
    \<longrightarrow>
      map (\<lambda>turn. filter is_pool_run (snd turn))
          (snd (download_options_quotes H cfg base_url ticker o_tickers months_hist))
        = map (\<lambda>b. [QuotePoolStarmap
                       (cfg (quote_pool_kwargs(''init_client_session'' \<mapsto> KBool True,
                                               ''session_base_url'' \<mapsto> KStr base_url)))
                       (snd (H months_hist
                          (dict_of (map (\<lambda>x. (o_ticker x, id_num x)) o_tickers)) (Some b)))
                       (fst (H months_hist
                          (dict_of (map (\<lambda>x. (o_ticker x, id_num x)) o_tickers)) (Some b)))])
              (map fst (snd (download_options_quotes H cfg base_url ticker o_tickers
                              months_hist)))) \<and>
   (length (filter (\<lambda>x. underlying_ticker x = ticker) o_tickers) = 2500 \<longrightarrow>
      map length (map fst (snd (download_options_quotes H cfg base_url ticker o_tickers
                                  months_hist)))
        = [1000, 1000, 500])"
proof (intro conjI impI)
  show "fst (download_options_quotes H cfg base_url ticker o_tickers months_hist) = Returned"
    by (rule quotes_returns)
  show "map fst (snd (download_options_quotes H cfg base_url ticker o_tickers months_hist))
     = map (\<lambda>k. take 1000 (drop (k * 1000) (filter (\<lambda>x. underlying_ticker x = ticker) o_tickers)))
           [0 ..< (length (filter (\<lambda>x. underlying_ticker x = ticker) o_tickers) + 999) div 1000]"
    by (rule quotes_slices)
  show "concat (map fst (snd (download_options_quotes H cfg base_url ticker o_tickers months_hist)))
     = filter (\<lambda>x. underlying_ticker x = ticker) o_tickers"
    by (rule quotes_concat)
  show "map length (map fst (snd (download_options_quotes H cfg base_url ticker o_tickers months_hist)))
     = replicate (length (filter (\<lambda>x. underlying_ticker x = ticker) o_tickers) div 1000) 1000
       @ (if length (filter (\<lambda>x. underlying_ticker x = ticker) o_tickers) mod 1000 = 0 then []
          else [length (filter (\<lambda>x. underlying_ticker x = ticker) o_tickers) mod 1000])"
    using quotes_sizes [of H cfg base_url ticker o_tickers months_hist]
    by (simp only: BATCH_SIZE_OTICKERS_def)
  show "snd (download_options_quotes H cfg base_url ticker o_tickers months_hist)
     = map (\<lambda>b. (b,
             [LogGenerating, GenerateRequestArgs (Some b)] @
             (if fst (H months_hist (dict_of (map (\<lambda>x. (o_ticker x, id_num x)) o_tickers))
                        (Some b)) = [] then []
              else [LogFetching,
                    LogTasks (length (fst (H months_hist
                       (dict_of (map (\<lambda>x. (o_ticker x, id_num x)) o_tickers)) (Some b)))),
                    LogCreatingQuotePool,
                    QuotePoolStarmap
                      (cfg (quote_pool_kwargs(''init_client_session'' \<mapsto> KBool True,
                                              ''session_base_url'' \<mapsto> KStr base_url)))
                      (snd (H months_hist
                         (dict_of (map (\<lambda>x. (o_ticker x, id_num x)) o_tickers)) (Some b)))
                      (fst (H months_hist
                         (dict_of (map (\<lambda>x. (o_ticker x, id_num x)) o_tickers)) (Some b))),
                    LogFinished])))
           (map fst (snd (download_options_quotes H cfg base_url ticker o_tickers months_hist)))"
    by (rule quotes_turns)
next
  assume "\<forall>b. b \<noteq> [] \<longrightarrow>
        fst (H months_hist (dict_of (map (\<lambda>x. (o_ticker x, id_num x)) o_tickers)) (Some b)) \<noteq> []"
  then show "map (\<lambda>turn. filter is_pool_run (snd turn))
          (snd (download_options_quotes H cfg base_url ticker o_tickers months_hist))
        = map (\<lambda>b. [QuotePoolStarmap
                       (cfg (quote_pool_kwargs(''init_client_session'' \<mapsto> KBool True,
                                               ''session_base_url'' \<mapsto> KStr base_url)))
                       (snd (H months_hist
                          (dict_of (map (\<lambda>x. (o_ticker x, id_num x)) o_tickers)) (Some b)))
                       (fst (H months_hist
                          (dict_of (map (\<lambda>x. (o_ticker x, id_num x)) o_tickers)) (Some b)))])
              (map fst (snd (download_options_quotes H cfg base_url ticker o_tickers
                              months_hist)))"
    by (intro quotes_pool_runs) blast
next
  assume n: "length (filter (\<lambda>x. underlying_ticker x = ticker) o_tickers) = 2500"
  show "map length (map fst (snd (download_options_quotes H cfg base_url ticker o_tickers
                                  months_hist)))
        = [1000, 1000, 500]"
    unfolding quotes_sizes n by (simp add: BATCH_SIZE_OTICKERS_def numeral_2_eq_2)
qed

theorem download_options_quotes_chunks_witness:
  "map length (map fst (snd (download_options_quotes
      (\<lambda>m l a. case a of None \<Rightarrow> ([], 0) | Some b \<Rightarrow> (map o_ticker b, length b)) id ''b''
      ''SPY''
      (replicate 2500 \<lparr>o_ticker = ''O:SPY'', id_num = 1, expiration_date = 0,
                        underlying_ticker = ''SPY''\<rparr>) 24)))
   = [1000, 1000, 500] \<and>
   map (\<lambda>turn. filter is_pool_run (snd turn))
     (snd (download_options_quotes
      (\<lambda>m l a. case a of None \<Rightarrow> ([], 0) | Some b \<Rightarrow> (map o_ticker b, length b)) id ''b''
      ''SPY''
      (replicate 2500 \<lparr>o_ticker = ''O:SPY'', id_num = 1, expiration_date = 0,
                        underlying_ticker = ''SPY''\<rparr>) 24))
   = [[QuotePoolStarmap
         (quote_pool_kwargs(''init_client_session'' \<mapsto> KBool True,
                            ''session_base_url'' \<mapsto> KStr ''b''))
         1000 (replicate 1000 ''O:SPY'')],
      [QuotePoolStarmap
         (quote_pool_kwargs(''init_client_session'' \<mapsto> KBool True,
                            ''session_base_url'' \<mapsto> KStr ''b''))
         1000 (replicate 1000 ''O:SPY'')],
      [QuotePoolStarmap
         (quote_pool_kwargs(''init_client_session'' \<mapsto> KBool True,
                            ''session_base_url'' \<mapsto> KStr ''b''))
         500 (replicate 500 ''O:SPY'')]]"
proof -
  let ?x = "\<lparr>o_ticker = ''O:SPY'', id_num = 1, expiration_date = 0,
             underlying_ticker = ''SPY''\<rparr>"
  let ?H = "\<lambda>(m::int) (l::(string \<times> int) list) a.
             case a of None \<Rightarrow> ([], 0::nat) | Some b \<Rightarrow> (map o_ticker b, length b)"
  let ?D = "download_options_quotes ?H id ''b'' ''SPY'' (replicate 2500 ?x) 24"
  note t = download_options_quotes_chunks [of ?H id "''b''" "''SPY''" "replicate 2500 ?x" 24]
  have sel: "filter (\<lambda>x. underlying_ticker x = ''SPY'') (replicate 2500 ?x) = replicate 2500 ?x"
    by (simp add: filter_replicate)
  have up: "[0 ..< (2500 + 999) div 1000] = [0, 1, 2::nat]"
    by (simp add: upt_rec numeral_3_eq_3)
  have slices: "map fst (snd ?D) = [replicate 1000 ?x, replicate 1000 ?x, replicate 500 ?x]"
    using t [THEN conjunct2, THEN conjunct1] unfolding sel length_replicate up by simp
  have sizes: "map length (map fst (snd ?D)) = [1000, 1000, 500]"
    unfolding slices by simp
  have g: "\<forall>b. b \<noteq> [] \<longrightarrow>
     fst (?H 24 (dict_of (map (\<lambda>x. (o_ticker x, id_num x)) (replicate 2500 ?x))) (Some b)) \<noteq> []"
    by simp
  note runs = t [THEN conjunct2, THEN conjunct2, THEN conjunct2, THEN conjunct2, THEN conjunct2,
                 THEN conjunct1, THEN mp, OF g]
  show ?thesis
    unfolding runs slices by simp
qed

text \<open>
  C9: every option ticker in a slice that \<open>download_options_quotes\<close> passes on is one of
  \<open>o_tickers\<close> with \<open>underlying_ticker\<close> equal to \<open>ticker\<close>; an option ticker of another
  underlying is in no slice, and one of this underlying is in some slice.
\<close>

theorem download_options_quotes_selects:
  "(\<forall>b \<in> set (map fst (snd (download_options_quotes H cfg base_url ticker o_tickers months_hist))).
      \<forall>x \<in> set b. x \<in> set o_tickers \<and> underlying_ticker x = ticker) \<and>
   (\<forall>x \<in> set o_tickers. underlying_ticker x \<noteq> ticker \<longrightarrow>
      x \<notin> set (concat (map fst (snd (download_options_quotes H cfg base_url ticker o_tickers
                                        months_hist))))) \<and>
   (\<forall>x \<in> set o_tickers. underlying_ticker x = ticker \<longrightarrow>
      x \<in> set (concat (map fst (snd (download_options_quotes H cfg base_url ticker o_tickers
                                        months_hist)))))"
proof -
  have c: "set (concat (map fst (snd (download_options_quotes H cfg base_url ticker o_tickers
                                        months_hist))))
        = {x \<in> set o_tickers. underlying_ticker x = ticker}"
    by (simp add: quotes_concat)
  have "\<forall>b \<in> set (map fst (snd (download_options_quotes H cfg base_url ticker o_tickers months_hist))).
      \<forall>x \<in> set b. x \<in> set o_tickers \<and> underlying_ticker x = ticker"
  proof (intro ballI)
    fix b x
    assume "b \<in> set (map fst (snd (download_options_quotes H cfg base_url ticker o_tickers months_hist)))"
      and "x \<in> set b"
    then have "x \<in> set (concat (map fst (snd (download_options_quotes H cfg base_url ticker
                 o_tickers months_hist))))"
      by (simp only: set_concat) blast
    with c show "x \<in> set o_tickers \<and> underlying_ticker x = ticker" by simp
  qed
  with c show ?thesis by simp
qed

theorem download_options_quotes_selects_witness:
  "\<lparr>o_ticker = ''O:AAPL'', id_num = 2, expiration_date = 0, underlying_ticker = ''AAPL''\<rparr>
     \<notin> set (concat (map fst (snd (download_options_quotes (\<lambda>m l a. ([] :: nat list, ())) id ''b''
      ''SPY''
      [\<lparr>o_ticker = ''O:SPY'', id_num = 1, expiration_date = 0, underlying_ticker = ''SPY''\<rparr>,
       \<lparr>o_ticker = ''O:AAPL'', id_num = 2, expiration_date = 0, underlying_ticker = ''AAPL''\<rparr>]
      24)))) \<and>
   \<lparr>o_ticker = ''O:SPY'', id_num = 1, expiration_date = 0, underlying_ticker = ''SPY''\<rparr>
     \<in> set (concat (map fst (snd (download_options_quotes (\<lambda>m l a. ([] :: nat list, ())) id ''b''
      ''SPY''
      [\<lparr>o_ticker = ''O:SPY'', id_num = 1, expiration_date = 0, underlying_ticker = ''SPY''\<rparr>,
       \<lparr>o_ticker = ''O:AAPL'', id_num = 2, expiration_date = 0, underlying_ticker = ''AAPL''\<rparr>]
      24))))"
  using download_options_quotes_selects [of "\<lambda>m l a. ([] :: nat list, ())" id "''b''" "''SPY''"
      "[\<lparr>o_ticker = ''O:SPY'', id_num = 1, expiration_date = 0, underlying_ticker = ''SPY''\<rparr>,
       \<lparr>o_ticker = ''O:AAPL'', id_num = 2, expiration_date = 0, underlying_ticker = ''AAPL''\<rparr>]"
      24]
  by simp

section \<open>The empty batch\<close>

text \<open>
  C8: when \<open>generate_request_args\<close> yields no request arguments, \<open>api_pool_downloader\<close>
  returns without an exception and without a run of a pool; its only effects are the
  call of \<open>generate_request_args\<close> and log lines.
\<close>

theorem api_pool_downloader_empty:
  "G args_data = [] \<longrightarrow>
     api_pool_downloader G cfg base_url args_data pool_kwargs batch_num =
       (Returned,
        [LogGenerating, GenerateRequestArgs args_data]
        @ (if truthy_int batch_num then [LogNoData (the batch_num)] else [])) \<and>
     filter is_pool_run (snd (api_pool_downloader G cfg base_url args_data pool_kwargs batch_num))
       = []"
  by (simp add: api_pool_downloader_def)

theorem api_pool_downloader_empty_witness:
  "api_pool_downloader (\<lambda>a. ([] :: nat list)) id ''b'' (Some ([] :: string list))
      [''processes'' \<mapsto> KInt 1] (Some 3)
     = (Returned, [LogGenerating, GenerateRequestArgs (Some []), LogNoData 3] ::
          (string, nat, unit) pool_event list) \<and>
   filter is_pool_run (snd (api_pool_downloader (\<lambda>a. ([] :: nat list)) id ''b''
      (Some ([] :: string list)) [''processes'' \<mapsto> KInt 1] (Some 3)
      :: outcome \<times> (string, nat, unit) pool_event list)) = []"
  using api_pool_downloader_empty [of "\<lambda>a. ([] :: nat list)" "Some ([] :: string list)" id "''b''"
     "[''processes'' \<mapsto> KInt 1]" "Some 3"]
  by simp

section \<open>The lookup of option tickers in a partial run\<close>

lemma update_not_Nil: "AList.update k v d \<noteq> []"
  by (cases d) simp_all

lemma foldl_update_not_Nil:
  "d \<noteq> [] \<Longrightarrow> foldl (\<lambda>d p. AList.update (fst p) (snd p) d) d kvs \<noteq> []"
  by (induction kvs arbitrary: d) (simp_all add: update_not_Nil)

lemma dict_of_Nil: "dict_of kvs = [] \<longleftrightarrow> kvs = []"
  by (cases kvs) (simp_all add: dict_of_def case_prod_unfold foldl_update_not_Nil update_not_Nil)

lemma o_ticker_dict_Nil [simp]: "o_ticker_dict rows = [] \<longleftrightarrow> rows = []"
  by (simp add: o_ticker_dict_def dict_of_Nil)

lemma stock_stages_o_tickers [simp]:
  "var_o_tickers (stock_stages QS partial tickers start_date end_date months_hist) = None"
  by (simp add: stock_stages_def stage1_def stage2_def stage3_def emit_def
      pull_tickers_from_db_def Let_def)

lemma stock_stages_no_query [simp]:
  "filter is_options_query (trace (stock_stages QS partial tickers start_date end_date months_hist))
     = []"
  by (simp add: stock_stages_def stage1_def stage2_def stage3_def emit_def
      pull_tickers_from_db_def Let_def)

lemma stock_stages_no_quotes [simp]:
  "filter is_quotes_download (trace (stock_stages QS partial tickers start_date end_date months_hist))
     = []"
  by (simp add: stock_stages_def stage1_def stage2_def stage3_def emit_def
      pull_tickers_from_db_def Let_def)

text \<open>
  C6, as amended: a partial run with stage 6 ends with the one download of quotes and its
  upload; a query of the option tickers comes before them, and the download and the
  upload are passed the lookup built from the answer to the last such query; with
  neither stage 4 nor stage 5 that query is the effect just before the download. A lookup
  that stage 4 resolves to a non-empty dict (or stage 5, without stage 4) is passed to
  the later stages with no further query.
\<close>

theorem import_partial_lookup:
  "(6 \<in> set partial \<and> 4 \<notin> set partial \<and> 5 \<notin> set partial \<longrightarrow>
      import_partial QS QO partial tickers start_date end_date months_hist
        = trace (stock_stages QS partial tickers start_date end_date months_hist)
          @ [QueryOptionsTickers tickers (length tickers = 0) False,
             DownloadOptionsQuotes
               (map snd (o_ticker_dict (QO
                  (trace (stock_stages QS partial tickers start_date end_date months_hist)
                   @ [QueryOptionsTickers tickers (length tickers = 0) False]))))
               months_hist,
             UploadOptionsQuotes
               (o_ticker_dict (QO
                  (trace (stock_stages QS partial tickers start_date end_date months_hist)
                   @ [QueryOptionsTickers tickers (length tickers = 0) False])))]) \<and>
   (4 \<in> set partial \<and>
    QO (trace (stock_stages QS partial tickers start_date end_date months_hist)
        @ [QueryOptionsTickers tickers (length tickers = 0) False]) \<noteq> [] \<longrightarrow>
      import_partial QS QO partial tickers start_date end_date months_hist
        = trace (stock_stages QS partial tickers start_date end_date months_hist)
          @ [QueryOptionsTickers tickers (length tickers = 0) False,
             DownloadOptionsPrices
               (map snd (o_ticker_dict (QO
                  (trace (stock_stages QS partial tickers start_date end_date months_hist)
                   @ [QueryOptionsTickers tickers (length tickers = 0) False]))))
               months_hist,
             UploadOptionsPrices
               (o_ticker_dict (QO
                  (trace (stock_stages QS partial tickers start_date end_date months_hist)
                   @ [QueryOptionsTickers tickers (length tickers = 0) False])))]
          @ (if 5 \<in> set partial then
               [DownloadOptionsSnapshots
                  (map snd (o_ticker_dict (QO
                     (trace (stock_stages QS partial tickers start_date end_date months_hist)
                      @ [QueryOptionsTickers tickers (length tickers = 0) False])))),
                UploadOptionsSnapshots
                  (o_ticker_dict (QO
                     (trace (stock_stages QS partial tickers start_date end_date months_hist)
                      @ [QueryOptionsTickers tickers (length tickers = 0) False])))]
             else [])
          @ (if 6 \<in> set partial then
               [DownloadOptionsQuotes
                  (map snd (o_ticker_dict (QO
                     (trace (stock_stages QS partial tickers start_date end_date months_hist)
                      @ [QueryOptionsTickers tickers (length tickers = 0) False]))))
                  months_hist,
                UploadOptionsQuotes
                  (o_ticker_dict (QO
                     (trace (stock_stages QS partial tickers start_date end_date months_hist)
                      @ [QueryOptionsTickers tickers (length tickers = 0) False])))]
             else [])) \<and>
   (4 \<notin> set partial \<and> 5 \<in> set partial \<and>
    QO (trace (stock_stages QS partial tickers start_date end_date months_hist)
        @ [QueryOptionsTickers tickers (length tickers = 0) True]) \<noteq> [] \<longrightarrow>
      import_partial QS QO partial tickers start_date end_date months_hist
        = trace (stock_stages QS partial tickers start_date end_date months_hist)
          @ [QueryOptionsTickers tickers (length tickers = 0) True,
             DownloadOptionsSnapshots
               (map snd (o_ticker_dict (QO
                  (trace (stock_stages QS partial tickers start_date end_date months_hist)
                   @ [QueryOptionsTickers tickers (length tickers = 0) True])))),
             UploadOptionsSnapshots
               (o_ticker_dict (QO
                  (trace (stock_stages QS partial tickers start_date end_date months_hist)
                   @ [QueryOptionsTickers tickers (length tickers = 0) True])))]
          @ (if 6 \<in> set partial then
               [DownloadOptionsQuotes
                  (map snd (o_ticker_dict (QO
                     (trace (stock_stages QS partial tickers start_date end_date months_hist)
                      @ [QueryOptionsTickers tickers (length tickers = 0) True]))))
                  months_hist,
                UploadOptionsQuotes
                  (o_ticker_dict (QO
                     (trace (stock_stages QS partial tickers start_date end_date months_hist)
                      @ [QueryOptionsTickers tickers (length tickers = 0) True])))]
             else [])) \<and>
   (6 \<in> set partial \<longrightarrow>
      drop (length (import_partial QS QO partial tickers start_date end_date months_hist) - 2)
           (import_partial QS QO partial tickers start_date end_date months_hist)
        = [DownloadOptionsQuotes
             (map snd (o_ticker_dict (QO (upto_last_query
                (take (length (import_partial QS QO partial tickers start_date end_date
                                months_hist) - 2)
                      (import_partial QS QO partial tickers start_date end_date months_hist))))))
             months_hist,
           UploadOptionsQuotes
             (o_ticker_dict (QO (upto_last_query
                (take (length (import_partial QS QO partial tickers start_date end_date
                                months_hist) - 2)
                      (import_partial QS QO partial tickers start_date end_date months_hist)))))] \<and>
      upto_last_query
        (take (length (import_partial QS QO partial tickers start_date end_date months_hist) - 2)
              (import_partial QS QO partial tickers start_date end_date months_hist)) \<noteq> [] \<and>
      filter is_quotes_download
        (take (length (import_partial QS QO partial tickers start_date end_date months_hist) - 2)
              (import_partial QS QO partial tickers start_date end_date months_hist)) = []) \<and>
   filter is_options_query (trace (stock_stages QS partial tickers start_date end_date months_hist))
     = []"
  by (simp add: import_partial_def stage4_def stage5_def stage6_def emit_def
      generate_o_ticker_lookup_def Let_def values_of_def upto_last_query_def)



theorem import_partial_lookup_witness:
  "import_partial (\<lambda>h. []) (\<lambda>h. [(''O:SPY1'', 1, 0, ''SPY'')]) [6] [''SPY''] 0 0 24
     = [QueryOptionsTickers [''SPY''] False False,
        DownloadOptionsQuotes
          [\<lparr>o_ticker = ''O:SPY1'', id_num = 1, expiration_date = 0,
            underlying_ticker = ''SPY''\<rparr>] 24,
        UploadOptionsQuotes
          [(''O:SPY1'', \<lparr>o_ticker = ''O:SPY1'', id_num = 1, expiration_date = 0,
            underlying_ticker = ''SPY''\<rparr>)]] \<and>
   import_partial (\<lambda>h. []) (\<lambda>h. [(''O:SPY1'', 1, 0, ''SPY'')]) [4, 6] [''SPY''] 0 0 24
     = [QueryOptionsTickers [''SPY''] False False,
        DownloadOptionsPrices
          [\<lparr>o_ticker = ''O:SPY1'', id_num = 1, expiration_date = 0,
            underlying_ticker = ''SPY''\<rparr>] 24,
        UploadOptionsPrices
          [(''O:SPY1'', \<lparr>o_ticker = ''O:SPY1'', id_num = 1, expiration_date = 0,
            underlying_ticker = ''SPY''\<rparr>)],
        DownloadOptionsQuotes
          [\<lparr>o_ticker = ''O:SPY1'', id_num = 1, expiration_date = 0,
            underlying_ticker = ''SPY''\<rparr>] 24,
        UploadOptionsQuotes
          [(''O:SPY1'', \<lparr>o_ticker = ''O:SPY1'', id_num = 1, expiration_date = 0,
            underlying_ticker = ''SPY''\<rparr>)]] \<and>
   import_partial (\<lambda>h. []) (\<lambda>h. [(''O:SPY1'', 1, 0, ''SPY'')]) [5, 6] [''SPY''] 0 0 24
     = [QueryOptionsTickers [''SPY''] False True,
        DownloadOptionsSnapshots
          [\<lparr>o_ticker = ''O:SPY1'', id_num = 1, expiration_date = 0,
            underlying_ticker = ''SPY''\<rparr>],
        UploadOptionsSnapshots
          [(''O:SPY1'', \<lparr>o_ticker = ''O:SPY1'', id_num = 1, expiration_date = 0,
            underlying_ticker = ''SPY''\<rparr>)],
        DownloadOptionsQuotes
          [\<lparr>o_ticker = ''O:SPY1'', id_num = 1, expiration_date = 0,
            underlying_ticker = ''SPY''\<rparr>] 24,
        UploadOptionsQuotes
          [(''O:SPY1'', \<lparr>o_ticker = ''O:SPY1'', id_num = 1, expiration_date = 0,
            underlying_ticker = ''SPY''\<rparr>)]] \<and>
   drop 4 (import_partial (\<lambda>h. [])
        (\<lambda>h. if 2 \<le> length (filter is_options_query h) then [(''O:SPY1'', 1, 0, ''SPY'')]
             else [])
        [4, 6] [''SPY''] 0 0 24)
     = [DownloadOptionsQuotes
          [\<lparr>o_ticker = ''O:SPY1'', id_num = 1, expiration_date = 0,
            underlying_ticker = ''SPY''\<rparr>] 24,
        UploadOptionsQuotes
          [(''O:SPY1'', \<lparr>o_ticker = ''O:SPY1'', id_num = 1, expiration_date = 0,
            underlying_ticker = ''SPY''\<rparr>)]]"
  using import_partial_lookup [of "[6]" "\<lambda>h. []" "\<lambda>h. [(''O:SPY1'', 1, 0, ''SPY'')]"
          "[''SPY'']" 0 0 24]
        import_partial_lookup [of "[4, 6]" "\<lambda>h. []" "\<lambda>h. [(''O:SPY1'', 1, 0, ''SPY'')]"
          "[''SPY'']" 0 0 24]
        import_partial_lookup [of "[5, 6]" "\<lambda>h. []" "\<lambda>h. [(''O:SPY1'', 1, 0, ''SPY'')]"
          "[''SPY'']" 0 0 24]
        import_partial_lookup [of "[4, 6]" "\<lambda>h. []"
          "\<lambda>h. if 2 \<le> length (filter is_options_query h) then [(''O:SPY1'', 1, 0, ''SPY'')]
               else []"
          "[''SPY'']" 0 0 24]
  by (simp add: import_partial_def stock_stages_def stage1_def stage2_def stage3_def stage4_def
      stage5_def stage6_def emit_def generate_o_ticker_lookup_def values_of_def Let_def
      upto_last_query_def o_ticker_dict_def dict_of_def mk_OptionTicker_def)

text \<open>
  The claim as it stands fails where the lookup is empty: with the stages 4 and 6 and a
  database without option tickers, stage 6 queries again.
\<close>

theorem import_partial_requeries_empty_lookup:
  "import_partial (\<lambda>h. []) (\<lambda>h. []) [4, 6] [''SPY''] 0 0 24
     = [QueryOptionsTickers [''SPY''] False False,
        DownloadOptionsPrices [] 24, UploadOptionsPrices [],
        QueryOptionsTickers [''SPY''] False False,
        DownloadOptionsQuotes [] 24, UploadOptionsQuotes []]"
  by (simp add: import_partial_def stock_stages_def stage1_def stage2_def stage3_def
      stage4_def stage5_def stage6_def emit_def generate_o_ticker_lookup_def Let_def
      values_of_def o_ticker_dict_def dict_of_def)


section \<open>The removal of tickers\<close>

lemma deleted_append [simp]: "deleted (xs @ ys) = deleted xs @ deleted ys"
  by (induction xs rule: deleted.induct) auto

lemma reported_append [simp]: "reported (xs @ ys) = reported xs @ reported ys"
  by (induction xs rule: reported.induct) auto






end
